theory Spec2Isabelle
  imports Main
begin

section \<open>Data model of \<open>src/main.py\<close>\<close>

text \<open>
  The service keeps one JSON file (\<open>COURSES_FILE\<close>) holding the whole course table and a
  directory (\<open>UPLOAD_DIR\<close>) of uploaded PDF files. Every endpoint reads the table with
  \<open>read_courses\<close>, works on the Python list it gets, and writes the list back with
  \<open>write_courses\<close>.

  Python strings are lists of characters; the accented letters of the French messages
  are written by their code points (\<open>0xE9\<close>, \<open>0xEA\<close>).
\<close>

subsection \<open>Timestamps\<close>

text \<open>
  A naive \<open>datetime\<close> object, as \<open>datetime.now()\<close> returns it. Its fields stay in their
  ranges (year 1..9999, month 1..12, ..., microsecond 0..999999).
\<close>

record datetime =
  year :: nat
  month :: nat
  day :: nat
  hour :: nat
  minute :: nat
  second :: nat
  microsecond :: nat

text \<open>\<open>digits w n\<close> is \<open>"%0wd" % n\<close> for a number of at most \<open>w\<close> decimal digits.\<close>

primrec digits :: "nat \<Rightarrow> nat \<Rightarrow> string" where
  "digits 0 n = []"
| "digits (Suc w) n = digits w (n div 10) @ [''0123456789'' ! (n mod 10)]"

text \<open>
  \<open>str(d)\<close> of a naive datetime is \<open>d.isoformat(sep=' ')\<close>:
  \<open>YYYY-MM-DD HH:MM:SS\<close>, followed by \<open>.ffffff\<close> when the microsecond is not zero.
\<close>

definition str_datetime :: "datetime \<Rightarrow> string" where
  "str_datetime d =
     digits 4 (year d) @ ''-'' @ digits 2 (month d) @ ''-'' @ digits 2 (day d) @ '' '' @
     digits 2 (hour d) @ '':'' @ digits 2 (minute d) @ '':'' @ digits 2 (second d) @
     (if microsecond d = 0 then [] else ''.'' @ digits 6 (microsecond d))"

text \<open>
  The datetimes whose fields fit the widths of \<open>str_datetime\<close>; every \<open>datetime\<close> object
  is among them.
\<close>

definition in_range :: "datetime \<Rightarrow> bool" where
  "in_range d \<longleftrightarrow>
     year d < 10000 \<and> month d < 100 \<and> day d < 100 \<and> hour d < 100 \<and> minute d < 100 \<and>
     second d < 100 \<and> microsecond d < 1000000"

text \<open>
  The Python value a timestamp field holds in memory: a \<open>datetime\<close> object (set by
  \<open>datetime.now()\<close> or by the validation of a request body) or a \<open>str\<close> (what
  \<open>json.load\<close> returns, and what \<open>update_course\<close> assigns to \<open>created_at\<close>).
\<close>

datatype pyval = Str string | Datetime datetime

subsection \<open>Courses\<close>

text \<open>
  The six fields of \<open>class Course\<close>, in the order of the class. The type of the two
  timestamps is a parameter: a JSON object of the table file has strings there, a
  \<open>Course\<close> object has Python values.
\<close>

record 'ts course =
  name :: string
  description :: string
  pdf_path :: string
  created_at :: 'ts
  updated_at :: 'ts
  level :: string

type_synonym json_course = "string course"
type_synonym py_course = "pyval course"

text \<open>
  An element of the Python list \<open>courses\<close>: a dict read from the table file, or a
  \<open>Course\<close> object (\<open>isinstance(course, Course)\<close>).
\<close>

datatype entry = Dict json_course | Obj py_course

subsection \<open>The file system\<close>

text \<open>
  What stands at a path; paths are compared as strings. A regular file is represented by
  what it holds: \<open>Table t\<close> is a file with the text that \<open>json.dump\<close> writes for the array
  \<open>t\<close> of course objects, which \<open>json.load\<close> parses to \<open>t\<close>; \<open>Raw b\<close> is a file of bytes
  \<open>b\<close>, such as an uploaded PDF or a damaged table file. \<open>Directory\<close> is a directory:
  the upload directory is one, the module creates it when it is loaded.
  The failures of the operating system other than opening a directory as a file
  (permissions, full disk, a missing parent directory) are not modelled.
\<close>

type_synonym path = string

datatype node = Table "json_course list" | Raw string | Directory

type_synonym fs = "path \<rightharpoonup> node"

definition COURSES_FILE :: path where
  "COURSES_FILE = ''courses.json''"

definition UPLOAD_DIR :: path where
  "UPLOAD_DIR = ''pdf_files''"

text \<open>
  The exceptions that leave an endpoint: the \<open>HTTPException\<close>s it raises itself, and the
  exceptions of the library calls, which it does not catch. \<open>JSONDecodeError\<close> is the one
  exception \<open>read_courses\<close> catches.
\<close>

datatype exception =
    HTTPException (status_code: nat) (detail: string)
  | JSONDecodeError
  | UnicodeDecodeError
  | RecursionError
  | IsADirectoryError

text \<open>
  \<open>with open(p, "w") as file: ...\<close> (or \<open>"wb"\<close>): opening a directory raises
  \<open>IsADirectoryError\<close>; otherwise the file is created or truncated and gets the new
  content.
\<close>

definition open_write :: "path \<Rightarrow> node \<Rightarrow> fs \<Rightarrow> exception + fs" where
  "open_write p new s =
     (if s p = Some Directory then Inl IsADirectoryError else Inr (s(p \<mapsto> new)))"

subsection \<open>String and path functions of the Python library\<close>

text \<open>\<open>s.endswith(suffix)\<close> and \<open>s.startswith(prefix)\<close>.\<close>

definition endswith :: "string \<Rightarrow> string \<Rightarrow> bool" where
  "endswith s suffix \<longleftrightarrow>
     length suffix \<le> length s \<and> drop (length s - length suffix) s = suffix"

definition startswith :: "string \<Rightarrow> string \<Rightarrow> bool" where
  "startswith s prefix \<longleftrightarrow> take (length prefix) s = prefix"

text \<open>
  \<open>os.path.join(a, b)\<close> of \<open>posixpath\<close>: an absolute \<open>b\<close> discards \<open>a\<close>; otherwise the
  two are joined by one separator.
\<close>

definition os_path_join :: "path \<Rightarrow> path \<Rightarrow> path" where
  "os_path_join a b =
     (if startswith b ''/'' then b
      else if a = [] \<or> endswith a ''/'' then a @ b
      else a @ ''/'' @ b)"

text \<open>\<open>p.split('/')\<close>.\<close>

fun split_slash :: "string \<Rightarrow> string list" where
  "split_slash [] = [[]]"
| "split_slash (c # cs) =
     (if c = CHR ''/'' then [] # split_slash cs
      else (case split_slash cs of
              [] \<Rightarrow> [[c]]
            | x # xs \<Rightarrow> (c # x) # xs))"

text \<open>
  \<open>Path(p).name\<close> of \<open>pathlib\<close> (POSIX): the last component of the path, where empty
  components and \<open>.\<close> are dropped; the empty string when there is none.
\<close>

definition path_parts :: "path \<Rightarrow> string list" where
  "path_parts p = filter (\<lambda>c. c \<noteq> [] \<and> c \<noteq> ''.'') (split_slash p)"

definition path_name :: "path \<Rightarrow> string" where
  "path_name p = (case rev (path_parts p) of [] \<Rightarrow> [] | x # _ \<Rightarrow> x)"

subsection \<open>Reading a text file\<close>

text \<open>
  A file opened with \<open>open(p, "r")\<close> is decoded as UTF-8, the default encoding, when it
  is read; bytes that are not well-formed UTF-8 raise \<open>UnicodeDecodeError\<close>. The
  well-formed sequences are those of the Unicode standard: one byte below \<open>0x80\<close>, or a
  lead byte \<open>0xC2..0xF4\<close> with one to three continuation bytes, without overlong forms,
  surrogates and code points above \<open>0x10FFFF\<close>.
\<close>

definition continuation :: "nat \<Rightarrow> bool" where
  "continuation b \<longleftrightarrow> 0x80 \<le> b \<and> b \<le> 0xBF"

fun utf8_valid :: "nat list \<Rightarrow> bool" where
  "utf8_valid [] = True"
| "utf8_valid [b] = (b < 0x80)"
| "utf8_valid [b, c1] =
     (if b < 0x80 then utf8_valid [c1]
      else 0xC2 \<le> b \<and> b \<le> 0xDF \<and> continuation c1)"
| "utf8_valid [b, c1, c2] =
     (if b < 0x80 then utf8_valid [c1, c2]
      else if 0xC2 \<le> b \<and> b \<le> 0xDF then continuation c1 \<and> utf8_valid [c2]
      else 0xE0 \<le> b \<and> b \<le> 0xEF \<and>
           (if b = 0xE0 then 0xA0 \<le> c1 \<and> c1 \<le> 0xBF
            else if b = 0xED then 0x80 \<le> c1 \<and> c1 \<le> 0x9F
            else continuation c1) \<and>
           continuation c2)"
| "utf8_valid (b # c1 # c2 # c3 # bs) =
     (if b < 0x80 then utf8_valid (c1 # c2 # c3 # bs)
      else if 0xC2 \<le> b \<and> b \<le> 0xDF then continuation c1 \<and> utf8_valid (c2 # c3 # bs)
      else if 0xE0 \<le> b \<and> b \<le> 0xEF then
           (if b = 0xE0 then 0xA0 \<le> c1 \<and> c1 \<le> 0xBF
            else if b = 0xED then 0x80 \<le> c1 \<and> c1 \<le> 0x9F
            else continuation c1) \<and>
           continuation c2 \<and> utf8_valid (c3 # bs)
      else 0xF0 \<le> b \<and> b \<le> 0xF4 \<and>
           (if b = 0xF0 then 0x90 \<le> c1 \<and> c1 \<le> 0xBF
            else if b = 0xF4 then 0x80 \<le> c1 \<and> c1 \<le> 0x8F
            else continuation c1) \<and>
           continuation c2 \<and> continuation c3 \<and> utf8_valid bs)"

text \<open>
  \<open>json.loads\<close>, the parser of the library, is a parameter of the model: applied to
  (the bytes of) a text it returns the array of course objects the text denotes, or the
  exception it raises, \<open>JSONDecodeError\<close> on a text that is not JSON and \<open>RecursionError\<close>
  on one nested too deeply. Texts that denote another JSON value are not represented.
\<close>

type_synonym json_parser = "string \<Rightarrow> exception + json_course list"

text \<open>
  \<open>with open(COURSES_FILE, "r") as file: json.load(file)\<close> on what stands at the path.
\<close>

definition json_load :: "json_parser \<Rightarrow> node \<Rightarrow> exception + json_course list" where
  "json_load json_loads f =
     (case f of
        Table t \<Rightarrow> Inr t
      | Raw b \<Rightarrow>
          if utf8_valid (map of_char b) then json_loads b else Inl UnicodeDecodeError
      | Directory \<Rightarrow> Inl IsADirectoryError)"

section \<open>The course store\<close>

text \<open>
  \<open>read_courses\<close>: the empty list when nothing exists at the path, and when \<open>json.load\<close>
  raises \<open>JSONDecodeError\<close>; the parsed list when it returns one. Any other exception is
  not caught.
\<close>

definition read_courses :: "json_parser \<Rightarrow> fs \<Rightarrow> exception + json_course list" where
  "read_courses json_loads s =
     (case s COURSES_FILE of
        Some f \<Rightarrow>
          (case json_load json_loads f of
             Inr courses \<Rightarrow> Inr courses
           | Inl e \<Rightarrow> if e = JSONDecodeError then Inr [] else Inl e)
      | None \<Rightarrow> Inr [])"

text \<open>
  \<open>course.dict() if isinstance(course, Course) else course\<close>: the dict of a \<open>Course\<close>
  object holds the object's values; a dict is taken as it is.
\<close>

fun course_dict :: "entry \<Rightarrow> py_course" where
  "course_dict (Obj c) = c"
| "course_dict (Dict d) =
     \<lparr>name = name d, description = description d, pdf_path = pdf_path d,
      created_at = Str (created_at d), updated_at = Str (updated_at d), level = level d\<rparr>"

text \<open>
  \<open>json.dump(..., default=str)\<close> on one value: a string is written as it is, and
  \<open>default\<close> is called on a \<open>datetime\<close>, which JSON cannot hold.
\<close>

fun json_value :: "pyval \<Rightarrow> string" where
  "json_value (Str s) = s"
| "json_value (Datetime d) = str_datetime d"

definition json_dump_course :: "py_course \<Rightarrow> json_course" where
  "json_dump_course c =
     \<lparr>name = name c, description = description c, pdf_path = pdf_path c,
      created_at = json_value (created_at c), updated_at = json_value (updated_at c),
      level = level c\<rparr>"

text \<open>
  \<open>write_courses\<close>: creates the file with an empty array when nothing exists at the
  path, then overwrites it with the whole list.
\<close>

definition write_courses :: "entry list \<Rightarrow> fs \<Rightarrow> exception + fs" where
  "write_courses courses s =
     (case (if s COURSES_FILE = None then open_write COURSES_FILE (Table []) s else Inr s) of
        Inl e \<Rightarrow> Inl e
      | Inr s1 \<Rightarrow>
          let courses_data = map course_dict courses
          in open_write COURSES_FILE (Table (map json_dump_course courses_data)) s1)"

section \<open>The endpoints\<close>

text \<open>
  The loop \<open>for index, course in enumerate(courses): if course["name"] == course_name\<close>:
  the first element whose name is the requested one, with its index.
\<close>

fun scan :: "string \<Rightarrow> json_course list \<Rightarrow> nat \<Rightarrow> (nat \<times> json_course) option" where
  "scan course_name [] index = None"
| "scan course_name (course # rest) index =
     (if name course = course_name then Some (index, course)
      else scan course_name rest (Suc index))"

text \<open>
  \<open>create_course\<close>. The two calls of \<open>datetime.now()\<close> are two readings of the clock,
  \<open>now1\<close> and \<open>now2\<close>, in the order of the calls. An exception leaves the file system as
  it was when it was raised.
\<close>

definition create_course ::
  "json_parser \<Rightarrow> datetime \<Rightarrow> datetime \<Rightarrow> string \<Rightarrow> string \<Rightarrow> string \<Rightarrow> string \<Rightarrow> string
     \<Rightarrow> fs \<Rightarrow> (exception + py_course) \<times> fs" where
  "create_course json_loads now1 now2 name' description' level' filename content s =
     (if \<not> endswith filename ''.pdf''
      then (Inl (HTTPException 400 (''Le fichier doit '' @ [CHR 0xEA] @ ''tre un PDF'')), s)
      else
        let pdf_path' = os_path_join UPLOAD_DIR filename in
        case open_write pdf_path' (Raw content) s of
          Inl e \<Rightarrow> (Inl e, s)
        | Inr s1 \<Rightarrow>
            let course = \<lparr>name = name', description = description', pdf_path = pdf_path',
                          created_at = Datetime now1, updated_at = Datetime now2,
                          level = level'\<rparr>
            in (case read_courses json_loads s1 of
                  Inl e \<Rightarrow> (Inl e, s1)
                | Inr courses \<Rightarrow>
                    (case write_courses (map Dict courses @ [Obj course]) s1 of
                       Inl e \<Rightarrow> (Inl e, s1)
                     | Inr s2 \<Rightarrow> (Inr course, s2))))"

definition get_courses :: "json_parser \<Rightarrow> fs \<Rightarrow> exception + json_course list" where
  "get_courses json_loads s = read_courses json_loads s"

definition get_course :: "json_parser \<Rightarrow> string \<Rightarrow> fs \<Rightarrow> exception + json_course" where
  "get_course json_loads course_name s =
     (case read_courses json_loads s of
        Inl e \<Rightarrow> Inl e
      | Inr courses \<Rightarrow>
          (case scan course_name courses 0 of
             Some (index, course) \<Rightarrow> Inr course
           | None \<Rightarrow> Inl (HTTPException 404 ''Course not found'')))"

text \<open>
  \<open>update_course\<close>: the request body \<open>updated_course\<close> gets the stored \<open>created_at\<close>
  and the clock's reading, and replaces the element at \<open>index\<close>.
\<close>

definition update_course ::
  "json_parser \<Rightarrow> datetime \<Rightarrow> string \<Rightarrow> py_course \<Rightarrow> fs \<Rightarrow> (exception + py_course) \<times> fs" where
  "update_course json_loads now course_name updated_course s =
     (case read_courses json_loads s of
        Inl e \<Rightarrow> (Inl e, s)
      | Inr courses \<Rightarrow>
          (case scan course_name courses 0 of
             Some (index, course) \<Rightarrow>
               let updated_course' =
                     updated_course\<lparr>created_at := Str (created_at course),
                                     updated_at := Datetime now\<rparr>;
                   courses' = (map Dict courses)[index := Obj updated_course']
               in (case write_courses courses' s of
                     Inl e \<Rightarrow> (Inl e, s)
                   | Inr s' \<Rightarrow> (Inr updated_course', s'))
           | None \<Rightarrow> (Inl (HTTPException 404 ''Course not found''), s)))"

text \<open>\<open>delete_course\<close>: \<open>courses.pop(index)\<close> removes the element and returns it.\<close>

definition delete_course ::
  "json_parser \<Rightarrow> string \<Rightarrow> fs \<Rightarrow> (exception + json_course) \<times> fs" where
  "delete_course json_loads course_name s =
     (case read_courses json_loads s of
        Inl e \<Rightarrow> (Inl e, s)
      | Inr courses \<Rightarrow>
          (case scan course_name courses 0 of
             Some (index, course) \<Rightarrow>
               let deleted_course = course;
                   courses' = take index courses @ drop (Suc index) courses
               in (case write_courses (map Dict courses') s of
                     Inl e \<Rightarrow> (Inl e, s)
                   | Inr s' \<Rightarrow> (Inr deleted_course, s'))
           | None \<Rightarrow> (Inl (HTTPException 404 ''Course not found''), s)))"

text \<open>
  \<open>FileResponse(file_path, media_type=..., filename=...)\<close>: the response names the path;
  the file is read when the response is sent.
\<close>

datatype file_response =
  FileResponse (response_path: path) (media_type: string) (filename: string)

text \<open>
  \<open>download_course_file\<close>: \<open>os.path.exists(file_path)\<close> holds when anything stands at the
  path, a regular file or a directory.
\<close>

definition download_course_file ::
  "json_parser \<Rightarrow> string \<Rightarrow> fs \<Rightarrow> exception + file_response" where
  "download_course_file json_loads course_name s =
     (case read_courses json_loads s of
        Inl e \<Rightarrow> Inl e
      | Inr courses \<Rightarrow>
          (case scan course_name courses 0 of
             Some (index, course) \<Rightarrow>
               let file_path = pdf_path course in
               if s file_path \<noteq> None
               then Inr (FileResponse file_path ''application/pdf'' (path_name file_path))
               else Inl (HTTPException 404 (''Fichier PDF non trouv'' @ [CHR 0xE9]))
           | None \<Rightarrow> Inl (HTTPException 404 (''Cours non trouv'' @ [CHR 0xE9]))))"

text \<open>
  What a \<open>FileResponse\<close> delivers when it is sent: the regular file at its path.
\<close>

definition response_content :: "fs \<Rightarrow> file_response \<Rightarrow> node option" where
  "response_content s r =
     (case s (response_path r) of
        Some Directory \<Rightarrow> None
      | other \<Rightarrow> other)"

section \<open>Example data\<close>

text \<open>
  Two readings of the clock, one microsecond apart; the file system of a fresh
  installation, which holds the upload directory only; and one with a table of three
  records, two of them of the same name, and the upload of the first \<open>Algebra\<close>.
  The table files of the examples are absent or written by \<open>write_courses\<close>, so that
  the parser is not applied in them; the examples fix one that rejects every text.
\<close>

definition clock1 :: datetime where
  "clock1 = \<lparr>year = 2024, month = 1, day = 2, hour = 3, minute = 4, second = 5,
              microsecond = 6\<rparr>"

definition clock2 :: datetime where
  "clock2 = \<lparr>year = 2024, month = 1, day = 2, hour = 3, minute = 4, second = 5,
              microsecond = 7\<rparr>"

definition algebra :: json_course where
  "algebra = \<lparr>name = ''Algebra'', description = ''Linear equations'',
               pdf_path = ''pdf_files/algebra.pdf'',
               created_at = ''2023-09-01 08:00:00'', updated_at = ''2023-09-01 08:00:00'',
               level = ''6'' @ [CHR 0xE8] @ ''me''\<rparr>"

definition geometry :: json_course where
  "geometry = \<lparr>name = ''Geometry'', description = ''Triangles'',
                pdf_path = ''pdf_files/geometry.pdf'',
                created_at = ''2023-09-02 08:00:00'', updated_at = ''2023-09-02 08:00:00'',
                level = ''Bac''\<rparr>"

definition algebra_again :: json_course where
  "algebra_again = \<lparr>name = ''Algebra'', description = ''Matrices'',
                     pdf_path = ''pdf_files/matrices.pdf'',
                     created_at = ''2023-09-03 08:00:00'', updated_at = ''2023-09-03 08:00:00'',
                     level = ''Bac''\<rparr>"

definition request_body :: py_course where
  "request_body = \<lparr>name = ''Analysis'', description = ''Limits'',
                    pdf_path = ''pdf_files/analysis.pdf'',
                    created_at = Datetime clock1, updated_at = Datetime clock1,
                    level = ''Bac''\<rparr>"

definition folder_body :: py_course where
  "folder_body = \<lparr>name = ''Geometry'', description = ''Triangles'',
                   pdf_path = ''pdf_files'',
                   created_at = Datetime clock1, updated_at = Datetime clock1,
                   level = ''Bac''\<rparr>"

definition no_parse :: json_parser where
  "no_parse b = Inl JSONDecodeError"

definition fresh :: fs where
  "fresh = [UPLOAD_DIR \<mapsto> Directory]"

definition disk :: fs where
  "disk = [UPLOAD_DIR \<mapsto> Directory,
           COURSES_FILE \<mapsto> Table [geometry, algebra, algebra_again],
           ''pdf_files/algebra.pdf'' \<mapsto> Raw ''%PDF-1.4'']"

text \<open>A table file that holds the single byte \<open>0xFF\<close>, which is not UTF-8 and not JSON.\<close>

definition damaged :: fs where
  "damaged = [UPLOAD_DIR \<mapsto> Directory, COURSES_FILE \<mapsto> Raw [CHR 0xFF]]"

section \<open>Properties of the model\<close>

subsection \<open>The scan\<close>

text \<open>
  The scan finds nothing exactly when no element has the requested name, and otherwise
  stops at the first element that has it. Every list with such an element splits at it.
\<close>

lemma scan_None_iff: "scan n cs k = None \<longleftrightarrow> (\<forall>c\<in>set cs. name c \<noteq> n)"
  by (induction cs arbitrary: k) auto

lemma scan_first:
  "\<forall>x\<in>set pre. name x \<noteq> n \<Longrightarrow> name c = n \<Longrightarrow>
     scan n (pre @ c # post) k = Some (k + length pre, c)"
  by (induction pre arbitrary: k) auto

lemma first_match_decomposition:
  assumes "\<exists>x\<in>set cs. name x = n"
  shows "\<exists>pre c post. cs = pre @ c # post \<and> (\<forall>x\<in>set pre. name x \<noteq> n) \<and> name c = n"
  using split_list_first_prop [OF assms] by blast

subsection \<open>Reading and writing the table\<close>

text \<open>
  \<open>read_courses\<close> returns the empty list when the file is absent and when \<open>json.load\<close>
  raises \<open>JSONDecodeError\<close>, and lets every other exception through. What
  \<open>write_courses\<close> leaves in the table file is the image of the list under \<open>.dict()\<close>
  and \<open>json.dump\<close>; dicts that came from the file are written back as they are.
\<close>

lemma read_courses_absent: "s COURSES_FILE = None \<Longrightarrow> read_courses loads s = Inr []"
  by (simp add: read_courses_def)

lemma read_courses_JSONDecodeError:
  "s COURSES_FILE = Some f \<Longrightarrow> json_load loads f = Inl JSONDecodeError \<Longrightarrow>
     read_courses loads s = Inr []"
  by (simp add: read_courses_def)

lemma read_courses_propagates:
  "s COURSES_FILE = Some f \<Longrightarrow> json_load loads f = Inl e \<Longrightarrow> e \<noteq> JSONDecodeError \<Longrightarrow>
     read_courses loads s = Inl e"
  by (simp add: read_courses_def)

lemma read_courses_written: "read_courses loads (s(COURSES_FILE \<mapsto> Table t)) = Inr t"
  by (simp add: read_courses_def json_load_def)

lemma read_courses_other_path:
  "p \<noteq> COURSES_FILE \<Longrightarrow> read_courses loads (s(p \<mapsto> x)) = read_courses loads s"
  by (simp add: read_courses_def)

lemma read_courses_not_directory:
  "read_courses loads s = Inr t \<Longrightarrow> s COURSES_FILE \<noteq> Some Directory"
  by (auto simp: read_courses_def json_load_def)

lemma map_dump_dicts: "map (\<lambda>e. json_dump_course (course_dict e)) (map Dict ds) = ds"
  by (induction ds) (simp_all add: json_dump_course_def)

lemma write_courses_eq:
  "s COURSES_FILE \<noteq> Some Directory \<Longrightarrow>
     write_courses courses s =
       Inr (s(COURSES_FILE \<mapsto> Table (map (\<lambda>e. json_dump_course (course_dict e)) courses)))"
  by (simp add: write_courses_def open_write_def Let_def comp_def)

lemma write_courses_directory:
  "s COURSES_FILE = Some Directory \<Longrightarrow> write_courses courses s = Inl IsADirectoryError"
  by (simp add: write_courses_def open_write_def)

lemma write_courses_dicts:
  assumes "s COURSES_FILE \<noteq> Some Directory"
  shows "write_courses (map Dict ds) s = Inr (s(COURSES_FILE \<mapsto> Table ds))"
  unfolding write_courses_eq [where s = s, OF assms] map_dump_dicts ..

subsection \<open>Timestamps as strings\<close>

text \<open>
  \<open>str\<close> loses nothing of a datetime: two datetimes in range with the same string are
  equal. The string that \<open>write_courses\<close> stores determines the timestamp.
\<close>

lemma length_digits: "length (digits w n) = w"
  by (induction w arbitrary: n) simp_all

lemma digit_char_inj:
  assumes "i < 10" and "j < 10" and "''0123456789'' ! i = ''0123456789'' ! j"
  shows "i = j"
proof -
  have "distinct ''0123456789''"
    by simp
  moreover have "i < length ''0123456789''" "j < length ''0123456789''"
    using assms by simp_all
  ultimately show ?thesis
    using assms(3) nth_eq_iff_index_eq by blast
qed

lemma digits_inj:
  "n < 10 ^ w \<Longrightarrow> m < 10 ^ w \<Longrightarrow> digits w n = digits w m \<Longrightarrow> n = m"
proof (induction w arbitrary: n m)
  case 0
  then show ?case by simp
next
  case (Suc w)
  from Suc.prems(3) have init: "digits w (n div 10) = digits w (m div 10)"
    and last: "''0123456789'' ! (n mod 10) = ''0123456789'' ! (m mod 10)"
    by simp_all
  have "n div 10 < 10 ^ w" "m div 10 < 10 ^ w"
    using Suc.prems(1,2) by (simp_all add: less_mult_imp_div_less mult.commute)
  with init have d: "n div 10 = m div 10"
    using Suc.IH by blast
  have r: "n mod 10 = m mod 10"
    using last by (intro digit_char_inj) simp_all
  from d r show ?case
    by (metis div_mult_mod_eq)
qed

lemma str_datetime_inj:
  assumes "in_range d" and "in_range e" and "str_datetime d = str_datetime e"
  shows "d = e"
proof -
  have eq: "digits 4 (year d) = digits 4 (year e) \<and> digits 2 (month d) = digits 2 (month e) \<and>
      digits 2 (day d) = digits 2 (day e) \<and> digits 2 (hour d) = digits 2 (hour e) \<and>
      digits 2 (minute d) = digits 2 (minute e) \<and> digits 2 (second d) = digits 2 (second e) \<and>
      (if microsecond d = 0 then [] else ''.'' @ digits 6 (microsecond d)) =
      (if microsecond e = 0 then [] else ''.'' @ digits 6 (microsecond e))"
    using assms(3) unfolding str_datetime_def
    by (simp add: length_digits)
  have y: "year d = year e"
    using eq assms(1,2) by (intro digits_inj [of _ 4]) (simp_all add: in_range_def)
  have mo: "month d = month e"
    using eq assms(1,2) by (intro digits_inj [of _ 2]) (simp_all add: in_range_def)
  have da: "day d = day e"
    using eq assms(1,2) by (intro digits_inj [of _ 2]) (simp_all add: in_range_def)
  have h: "hour d = hour e"
    using eq assms(1,2) by (intro digits_inj [of _ 2]) (simp_all add: in_range_def)
  have mi: "minute d = minute e"
    using eq assms(1,2) by (intro digits_inj [of _ 2]) (simp_all add: in_range_def)
  have s: "second d = second e"
    using eq assms(1,2) by (intro digits_inj [of _ 2]) (simp_all add: in_range_def)
  have us: "microsecond d = microsecond e"
  proof (cases "microsecond d = 0 \<or> microsecond e = 0")
    case True
    then show ?thesis
      using eq by (auto split: if_splits)
  next
    case False
    then have "digits 6 (microsecond d) = digits 6 (microsecond e)"
      using eq by simp
    then show ?thesis
      using assms(1,2) by (intro digits_inj [of _ 6]) (simp_all add: in_range_def)
  qed
  from y mo da h mi s us show ?thesis
    by simp
qed

subsection \<open>Paths\<close>

text \<open>
  The path of an upload ends with the uploaded file's name, hence with \<open>.pdf\<close>: it is
  never the table file. When the name has no separator, it is the last component of the
  path.
\<close>

lemma endswith_iff: "endswith s t \<longleftrightarrow> (\<exists>u. s = u @ t)"
proof
  assume "endswith s t"
  then have "s = take (length s - length t) s @ t"
    by (metis append_take_drop_id endswith_def)
  then show "\<exists>u. s = u @ t" ..
next
  assume "\<exists>u. s = u @ t"
  then show "endswith s t"
    by (auto simp: endswith_def)
qed

lemma os_path_join_endswith: "endswith (os_path_join a b) b"
  unfolding os_path_join_def
  by (simp add: endswith_def)

lemma upload_path_not_table:
  assumes "endswith fname ''.pdf''"
  shows "os_path_join UPLOAD_DIR fname \<noteq> COURSES_FILE"
proof
  assume eq: "os_path_join UPLOAD_DIR fname = COURSES_FILE"
  from os_path_join_endswith [of UPLOAD_DIR fname] assms
  have "endswith (os_path_join UPLOAD_DIR fname) ''.pdf''"
    unfolding endswith_iff by auto
  with eq have "endswith COURSES_FILE ''.pdf''"
    by simp
  then show False
    by (simp add: endswith_def COURSES_FILE_def)
qed

lemma split_slash_no_slash: "CHR ''/'' \<notin> set f \<Longrightarrow> split_slash f = [f]"
  by (induction f) auto

lemma split_slash_append:
  "CHR ''/'' \<notin> set a \<Longrightarrow> split_slash (a @ CHR ''/'' # b) = a # split_slash b"
  by (induction a) auto

lemma path_name_upload:
  assumes "CHR ''/'' \<notin> set f" and "endswith f ''.pdf''"
  shows "path_name (os_path_join UPLOAD_DIR f) = f"
proof -
  obtain u where f: "f = u @ ''.pdf''"
    using assms(2) unfolding endswith_iff by blast
  have ne: "f \<noteq> []" "f \<noteq> ''.''"
    using f by auto
  have nostart: "\<not> startswith f ''/''"
    using assms(1) ne(1) by (cases f) (auto simp: startswith_def)
  have join: "os_path_join UPLOAD_DIR f = ''pdf_files'' @ CHR ''/'' # f"
    using nostart by (simp add: os_path_join_def UPLOAD_DIR_def endswith_def)
  have "split_slash (''pdf_files'' @ CHR ''/'' # f) = ''pdf_files'' # split_slash f"
    by (rule split_slash_append) simp
  then have "split_slash (os_path_join UPLOAD_DIR f) = [''pdf_files'', f]"
    using split_slash_no_slash [OF assms(1)] join by simp
  then show ?thesis
    using ne by (simp add: path_name_def path_parts_def)
qed

subsection \<open>The endpoints on a hit and on a miss\<close>

lemma create_course_ok:
  assumes "endswith fname ''.pdf''"
    and "s (os_path_join UPLOAD_DIR fname) \<noteq> Some Directory"
    and "read_courses loads s = Inr t"
  shows "create_course loads now1 now2 n d l fname content s =
           (Inr \<lparr>name = n, description = d, pdf_path = os_path_join UPLOAD_DIR fname,
                 created_at = Datetime now1, updated_at = Datetime now2, level = l\<rparr>,
            s(os_path_join UPLOAD_DIR fname \<mapsto> Raw content,
              COURSES_FILE \<mapsto> Table (t @
                [\<lparr>name = n, description = d, pdf_path = os_path_join UPLOAD_DIR fname,
                  created_at = str_datetime now1, updated_at = str_datetime now2,
                  level = l\<rparr>])))"
proof -
  let ?p = "os_path_join UPLOAD_DIR fname"
  let ?s1 = "s(?p \<mapsto> Raw content)"
  have ne: "?p \<noteq> COURSES_FILE"
    by (rule upload_path_not_table [OF assms(1)])
  have ow: "open_write ?p (Raw content) s = Inr ?s1"
    using assms(2) by (simp add: open_write_def)
  have rd: "read_courses loads ?s1 = Inr t"
    using assms(3) ne by (simp add: read_courses_other_path)
  have nd: "?s1 COURSES_FILE \<noteq> Some Directory"
    by (rule read_courses_not_directory [OF rd])
  have dump: "map (\<lambda>e. json_dump_course (course_dict e)) (map Dict t @ [Obj c])
                = t @ [json_dump_course c]" for c
    using map_dump_dicts [of t] by simp
  have wr: "write_courses (map Dict t @ [Obj c]) ?s1 =
              Inr (?s1(COURSES_FILE \<mapsto> Table (t @ [json_dump_course c])))" for c
    unfolding write_courses_eq [where s = "?s1", OF nd] dump ..
  show ?thesis
    apply (simp only: create_course_def assms(1) not_True_eq_False if_False Let_def)
    apply (simp only: ow sum.case)
    apply (simp only: rd sum.case)
    apply (simp only: wr sum.case)
    apply (simp add: json_dump_course_def)
    done
qed

lemma get_course_miss:
  assumes "read_courses loads s = Inr t" and "\<forall>x\<in>set t. name x \<noteq> n"
  shows "get_course loads n s = Inl (HTTPException 404 ''Course not found'')"
proof -
  have "scan n t 0 = None"
    using assms(2) by (simp add: scan_None_iff)
  then show ?thesis
    by (simp add: get_course_def assms(1))
qed

lemma update_course_hit:
  assumes "read_courses loads s = Inr (pre @ c # post)"
    and "\<forall>x\<in>set pre. name x \<noteq> n"
    and "name c = n"
  shows "update_course loads now n req s =
           (Inr (req\<lparr>created_at := Str (created_at c), updated_at := Datetime now\<rparr>),
            s(COURSES_FILE \<mapsto> Table (pre @
                json_dump_course
                  (req\<lparr>created_at := Str (created_at c), updated_at := Datetime now\<rparr>) # post)))"
proof -
  have sc: "scan n (pre @ c # post) 0 = Some (length pre, c)"
    using scan_first [OF assms(2,3), of post 0] by simp
  have nd: "s COURSES_FILE \<noteq> Some Directory"
    by (rule read_courses_not_directory [OF assms(1)])
  have upd: "(map Dict (pre @ c # post))[length pre := Obj u] = map Dict pre @ Obj u # map Dict post"
    for u
    by (simp add: list_update_append)
  have dump: "map (\<lambda>e. json_dump_course (course_dict e)) (map Dict pre @ Obj u # map Dict post)
                = pre @ json_dump_course u # post" for u
    using map_dump_dicts [of pre] map_dump_dicts [of post] by simp
  show ?thesis
    apply (simp only: update_course_def assms(1) sum.case)
    apply (simp only: sc option.case prod.case Let_def)
    apply (simp only: upd write_courses_eq [where s = s, OF nd] dump sum.case)
    done
qed

lemma update_course_miss:
  assumes "read_courses loads s = Inr t" and "\<forall>x\<in>set t. name x \<noteq> n"
  shows "update_course loads now n req s = (Inl (HTTPException 404 ''Course not found''), s)"
proof -
  have "scan n t 0 = None"
    using assms(2) by (simp add: scan_None_iff)
  then show ?thesis
    by (simp add: update_course_def assms(1))
qed

lemma delete_course_hit:
  assumes "read_courses loads s = Inr (pre @ c # post)"
    and "\<forall>x\<in>set pre. name x \<noteq> n"
    and "name c = n"
  shows "delete_course loads n s = (Inr c, s(COURSES_FILE \<mapsto> Table (pre @ post)))"
proof -
  have sc: "scan n (pre @ c # post) 0 = Some (length pre, c)"
    using scan_first [OF assms(2,3), of post 0] by simp
  have nd: "s COURSES_FILE \<noteq> Some Directory"
    by (rule read_courses_not_directory [OF assms(1)])
  have rest: "take (length pre) (pre @ c # post) @ drop (Suc (length pre)) (pre @ c # post)
                = pre @ post"
    by simp
  show ?thesis
    apply (simp only: delete_course_def assms(1) sum.case)
    apply (simp only: sc option.case prod.case Let_def)
    apply (simp only: rest write_courses_dicts [where s = s, OF nd] sum.case)
    done
qed

lemma delete_course_miss:
  assumes "read_courses loads s = Inr t" and "\<forall>x\<in>set t. name x \<noteq> n"
  shows "delete_course loads n s = (Inl (HTTPException 404 ''Course not found''), s)"
proof -
  have "scan n t 0 = None"
    using assms(2) by (simp add: scan_None_iff)
  then show ?thesis
    by (simp add: delete_course_def assms(1))
qed

lemma download_hit:
  assumes "read_courses loads s = Inr (pre @ c # post)"
    and "\<forall>x\<in>set pre. name x \<noteq> n"
    and "name c = n"
  shows "download_course_file loads n s =
           (if s (pdf_path c) \<noteq> None
            then Inr (FileResponse (pdf_path c) ''application/pdf'' (path_name (pdf_path c)))
            else Inl (HTTPException 404 (''Fichier PDF non trouv'' @ [CHR 0xE9])))"
proof -
  have sc: "scan n (pre @ c # post) 0 = Some (length pre, c)"
    using scan_first [OF assms(2,3), of post 0] by simp
  show ?thesis
    by (simp add: download_course_file_def assms(1) sc Let_def)
qed

lemma download_miss:
  assumes "read_courses loads s = Inr t" and "\<forall>x\<in>set t. name x \<noteq> n"
  shows "download_course_file loads n s =
           Inl (HTTPException 404 (''Cours non trouv'' @ [CHR 0xE9]))"
proof -
  have "scan n t 0 = None"
    using assms(2) by (simp add: scan_None_iff)
  then show ?thesis
    by (simp add: download_course_file_def assms(1))
qed

lemma response_content_file:
  "s p = Some f \<Longrightarrow> f \<noteq> Directory \<Longrightarrow> response_content s (FileResponse p m fn) = Some f"
  by (cases f) (simp_all add: response_content_def)

lemma create_then_download:
  assumes "read_courses loads s = Inr t"
    and "\<forall>x\<in>set t. name x \<noteq> n"
    and "endswith fname ''.pdf''"
    and "s (os_path_join UPLOAD_DIR fname) \<noteq> Some Directory"
  shows "download_course_file loads n
           (snd (create_course loads now1 now2 n d l fname content s)) =
           Inr (FileResponse (os_path_join UPLOAD_DIR fname) ''application/pdf''
                  (path_name (os_path_join UPLOAD_DIR fname))) \<and>
         snd (create_course loads now1 now2 n d l fname content s)
           (os_path_join UPLOAD_DIR fname) = Some (Raw content)"
proof -
  let ?p = "os_path_join UPLOAD_DIR fname"
  let ?c = "\<lparr>name = n, description = d, pdf_path = ?p, created_at = str_datetime now1,
             updated_at = str_datetime now2, level = l\<rparr>"
  let ?s2 = "s(?p \<mapsto> Raw content, COURSES_FILE \<mapsto> Table (t @ [?c]))"
  have cr: "snd (create_course loads now1 now2 n d l fname content s) = ?s2"
    by (simp only: create_course_ok [OF assms(3,4,1)] snd_conv)
  have ne: "?p \<noteq> COURSES_FILE"
    by (rule upload_path_not_table [OF assms(3)])
  have at: "?s2 ?p = Some (Raw content)"
    using ne by simp
  have rd: "read_courses loads ?s2 = Inr (t @ ?c # [])"
    by (simp only: read_courses_written append.simps)
  have nm: "name ?c = n" and pp: "pdf_path ?c = ?p"
    by simp_all
  have "download_course_file loads n ?s2 =
      Inr (FileResponse ?p ''application/pdf'' (path_name ?p))"
    by (simp only: download_hit [OF rd assms(2) nm] pp at) simp
  with at show ?thesis
    by (simp only: cr)
qed

subsection \<open>The example data\<close>

lemma digits_numeral:
  "digits (numeral k) n = digits (pred_numeral k) (n div 10) @ [''0123456789'' ! (n mod 10)]"
proof -
  have "digits (numeral k) n = digits (Suc (pred_numeral k)) n"
    by (simp only: numeral_eq_Suc)
  then show ?thesis
    by (simp only: digits.simps)
qed

lemma str_clock1: "str_datetime clock1 = ''2024-01-02 03:04:05.000006''"
  by (simp add: str_datetime_def clock1_def digits_numeral)

lemma str_clock2: "str_datetime clock2 = ''2024-01-02 03:04:05.000007''"
  by (simp add: str_datetime_def clock2_def digits_numeral)

lemma clocks_differ: "clock1 \<noteq> clock2"
  by (simp add: clock1_def clock2_def)

lemma read_courses_fresh: "read_courses loads fresh = Inr []"
  by (simp add: read_courses_def fresh_def COURSES_FILE_def UPLOAD_DIR_def)

lemma read_courses_disk: "read_courses loads disk = Inr [geometry, algebra, algebra_again]"
  by (simp add: read_courses_def json_load_def disk_def COURSES_FILE_def)

lemma disk_split: "read_courses loads disk = Inr ([geometry] @ algebra # [algebra_again])"
  by (simp add: read_courses_disk)

lemma disk_split_first: "read_courses loads disk = Inr ([] @ geometry # [algebra, algebra_again])"
  by (simp add: read_courses_disk)

lemma names_example [simp]:
  "name geometry = ''Geometry''" "name algebra = ''Algebra''" "name algebra_again = ''Algebra''"
  by (simp_all add: geometry_def algebra_def algebra_again_def)

lemma no_physics: "\<forall>x\<in>set [geometry, algebra, algebra_again]. name x \<noteq> ''Physics''"
  by simp

lemma path_name_algebra: "path_name ''pdf_files/algebra.pdf'' = ''algebra.pdf''"
  by (simp add: path_name_def path_parts_def)

lemma disk_not_directory: "disk COURSES_FILE \<noteq> Some Directory"
  by (simp add: disk_def COURSES_FILE_def)

lemma fresh_not_directory: "fresh COURSES_FILE \<noteq> Some Directory"
  by (simp add: fresh_def COURSES_FILE_def UPLOAD_DIR_def)

lemma fresh_upload_free: "fresh ''pdf_files/algebra.pdf'' \<noteq> Some Directory"
  by (simp add: fresh_def UPLOAD_DIR_def)

lemma fresh_tmp_free: "fresh ''/tmp/algebra.pdf'' \<noteq> Some Directory"
  by (simp add: fresh_def UPLOAD_DIR_def)

lemma join_algebra: "os_path_join UPLOAD_DIR ''algebra.pdf'' = ''pdf_files/algebra.pdf''"
  by (simp add: os_path_join_def UPLOAD_DIR_def startswith_def endswith_def)

lemma join_tmp_algebra: "os_path_join UPLOAD_DIR ''/tmp/algebra.pdf'' = ''/tmp/algebra.pdf''"
  by (simp add: os_path_join_def startswith_def)

lemma create_algebra:
  "create_course loads clock1 clock2 ''Algebra'' ''Linear equations'' ''Bac'' ''algebra.pdf''
      ''%PDF-1.4'' fresh =
     (Inr \<lparr>name = ''Algebra'', description = ''Linear equations'',
           pdf_path = ''pdf_files/algebra.pdf'',
           created_at = Datetime clock1, updated_at = Datetime clock2, level = ''Bac''\<rparr>,
      fresh(''pdf_files/algebra.pdf'' \<mapsto> Raw ''%PDF-1.4'',
            COURSES_FILE \<mapsto> Table
              [\<lparr>name = ''Algebra'', description = ''Linear equations'',
                pdf_path = ''pdf_files/algebra.pdf'',
                created_at = ''2024-01-02 03:04:05.000006'',
                updated_at = ''2024-01-02 03:04:05.000007'', level = ''Bac''\<rparr>]))"
proof -
  have pdf: "endswith ''algebra.pdf'' ''.pdf''"
    by (simp add: endswith_def)
  have free: "fresh (os_path_join UPLOAD_DIR ''algebra.pdf'') \<noteq> Some Directory"
    unfolding join_algebra by (rule fresh_upload_free)
  show ?thesis
    unfolding create_course_ok [OF pdf free read_courses_fresh] join_algebra str_clock1 str_clock2
    by simp
qed

lemma create_tmp_algebra:
  "create_course loads clock1 clock2 ''Algebra'' ''Linear equations'' ''Bac''
      ''/tmp/algebra.pdf'' ''%PDF-1.4'' fresh =
     (Inr \<lparr>name = ''Algebra'', description = ''Linear equations'',
           pdf_path = ''/tmp/algebra.pdf'',
           created_at = Datetime clock1, updated_at = Datetime clock2, level = ''Bac''\<rparr>,
      fresh(''/tmp/algebra.pdf'' \<mapsto> Raw ''%PDF-1.4'',
            COURSES_FILE \<mapsto> Table
              [\<lparr>name = ''Algebra'', description = ''Linear equations'',
                pdf_path = ''/tmp/algebra.pdf'',
                created_at = ''2024-01-02 03:04:05.000006'',
                updated_at = ''2024-01-02 03:04:05.000007'', level = ''Bac''\<rparr>]))"
proof -
  have pdf: "endswith ''/tmp/algebra.pdf'' ''.pdf''"
    by (simp add: endswith_def)
  have free: "fresh (os_path_join UPLOAD_DIR ''/tmp/algebra.pdf'') \<noteq> Some Directory"
    unfolding join_tmp_algebra by (rule fresh_tmp_free)
  show ?thesis
    unfolding create_course_ok [OF pdf free read_courses_fresh] join_tmp_algebra
      str_clock1 str_clock2
    by simp
qed

text \<open>
  A record whose \<open>pdf_path\<close> names a directory: after an update of \<open>Geometry\<close> with the
  upload directory as \<open>pdf_path\<close>, the download finds that something exists at the path
  and answers with a \<open>FileResponse\<close>.
\<close>

lemma download_of_directory:
  "download_course_file loads ''Geometry''
     (snd (update_course loads clock2 ''Geometry'' folder_body disk)) =
     Inr (FileResponse ''pdf_files'' ''application/pdf'' ''pdf_files'') \<and>
   snd (update_course loads clock2 ''Geometry'' folder_body disk) ''pdf_files'' =
     Some Directory"
proof -
  have up: "update_course loads clock2 ''Geometry'' folder_body disk =
      (Inr (folder_body\<lparr>created_at := Str (created_at geometry), updated_at := Datetime clock2\<rparr>),
       disk(COURSES_FILE \<mapsto> Table ([] @
         json_dump_course
           (folder_body\<lparr>created_at := Str (created_at geometry), updated_at := Datetime clock2\<rparr>)
         # [algebra, algebra_again])))"
    by (rule update_course_hit [OF disk_split_first]) simp_all
  let ?u = "json_dump_course
      (folder_body\<lparr>created_at := Str (created_at geometry), updated_at := Datetime clock2\<rparr>)"
  let ?s = "disk(COURSES_FILE \<mapsto> Table ([] @ ?u # [algebra, algebra_again]))"
  have rd: "read_courses loads ?s = Inr ([] @ ?u # [algebra, algebra_again])"
    by (rule read_courses_written)
  have nm: "name ?u = ''Geometry''" and pp: "pdf_path ?u = ''pdf_files''"
    by (simp_all add: json_dump_course_def folder_body_def)
  have dir: "?s ''pdf_files'' = Some Directory"
    by (simp add: disk_def COURSES_FILE_def UPLOAD_DIR_def)
  have nopre: "\<forall>x\<in>set []. name x \<noteq> ''Geometry''"
    by simp
  have pn: "path_name ''pdf_files'' = ''pdf_files''"
    by (simp add: path_name_def path_parts_def)
  have "download_course_file loads ''Geometry'' ?s =
      Inr (FileResponse ''pdf_files'' ''application/pdf'' ''pdf_files'')"
    by (simp only: download_hit [OF rd nopre nm] pp dir pn) simp
  with dir show ?thesis
    by (simp only: up snd_conv)
qed

section \<open>The claims\<close>

text \<open>
  Claim C1 says that \<open>update_course\<close> leaves the stored name of the record as it was,
  whatever name the request body carries. It does not: the request body replaces the
  whole element of the list, its name included. Updating \<open>Algebra\<close> with a body named
  \<open>Analysis\<close> leaves a record named \<open>Analysis\<close> at its place.
\<close>

theorem update_course_name_counterexample:
  "map_sum id (map name) (read_courses no_parse disk) =
     Inr [''Geometry'', ''Algebra'', ''Algebra''] \<and>
   map_sum id (map name)
     (read_courses no_parse (snd (update_course no_parse clock2 ''Algebra'' request_body disk))) =
     Inr [''Geometry'', ''Analysis'', ''Algebra'']"
proof -
  have eq: "update_course no_parse clock2 ''Algebra'' request_body disk =
          (Inr (request_body\<lparr>created_at := Str (created_at algebra), updated_at := Datetime clock2\<rparr>),
           disk(COURSES_FILE \<mapsto> Table ([geometry] @
             json_dump_course
               (request_body\<lparr>created_at := Str (created_at algebra), updated_at := Datetime clock2\<rparr>)
             # [algebra_again])))"
    by (rule update_course_hit [OF disk_split]) simp_all
  have before: "map_sum id (map name) (read_courses no_parse disk) =
      Inr [''Geometry'', ''Algebra'', ''Algebra'']"
    by (simp add: read_courses_disk)
  have after: "map_sum id (map name)
      (read_courses no_parse (snd (update_course no_parse clock2 ''Algebra'' request_body disk))) =
      Inr [''Geometry'', ''Analysis'', ''Algebra'']"
    unfolding eq
    by (simp add: read_courses_written json_dump_course_def request_body_def)
  from before after show ?thesis ..
qed

text \<open>
  Claim C1, amended: \<open>update_course\<close> replaces the first record whose name is the
  requested one by the request body: its name, description, pdf_path and level are those
  of the body (so the stored name is the body's name, and is the previous name only when
  the body carries it), its \<open>created_at\<close> is the stored one and its \<open>updated_at\<close> the
  clock's reading. The records before and after it are unchanged.
\<close>

theorem update_course_replaces_record:
  assumes "read_courses loads s = Inr (pre @ c # post)"
    and "\<forall>x\<in>set pre. name x \<noteq> n"
    and "name c = n"
  shows "read_courses loads (snd (update_course loads now n req s)) =
           Inr (pre @ \<lparr>name = name req, description = description req,
                        pdf_path = pdf_path req, created_at = created_at c,
                        updated_at = str_datetime now, level = level req\<rparr> # post)"
  by (simp add: update_course_hit [OF assms] read_courses_written json_dump_course_def)

theorem update_course_replaces_record_witness:
  "read_courses no_parse disk = Inr ([geometry] @ algebra # [algebra_again]) \<and>
   name geometry \<noteq> ''Algebra'' \<and> name algebra = ''Algebra'' \<and>
   read_courses no_parse (snd (update_course no_parse clock2 ''Algebra'' request_body disk)) =
     Inr [geometry,
      \<lparr>name = ''Analysis'', description = ''Limits'', pdf_path = ''pdf_files/analysis.pdf'',
       created_at = ''2023-09-01 08:00:00'', updated_at = ''2024-01-02 03:04:05.000007'',
       level = ''Bac''\<rparr>,
      algebra_again]"
proof -
  have h2: "\<forall>x\<in>set [geometry]. name x \<noteq> ''Algebra''"
    by simp
  have h3: "name algebra = ''Algebra''"
    by simp
  from update_course_replaces_record [OF disk_split h2 h3, of no_parse clock2 request_body]
  show ?thesis
    by (simp add: disk_split str_clock2 request_body_def algebra_def)
qed

text \<open>
  Claim C2: a \<open>create_course\<close> call whose filename does not end with \<open>.pdf\<close> fails with
  status 400 (\<open>InvalidInput\<close>) and changes nothing: the file system it returns is the one
  it was given, so the table is unchanged and no upload is written.
\<close>

theorem create_course_rejects_non_pdf:
  assumes "\<not> endswith fname ''.pdf''"
  shows "create_course loads now1 now2 n d l fname content s =
           (Inl (HTTPException 400 (''Le fichier doit '' @ [CHR 0xEA] @ ''tre un PDF'')), s)"
  using assms by (simp add: create_course_def)

theorem create_course_rejects_non_pdf_witness:
  "\<not> endswith ''algebra.txt'' ''.pdf'' \<and>
   create_course no_parse clock1 clock2 ''Algebra'' ''Linear equations'' ''Bac'' ''algebra.txt''
       ''plain text'' disk =
     (Inl (HTTPException 400 (''Le fichier doit '' @ [CHR 0xEA] @ ''tre un PDF'')), disk)"
proof -
  have h: "\<not> endswith ''algebra.txt'' ''.pdf''"
    by (simp add: endswith_def)
  from create_course_rejects_non_pdf [OF h] h show ?thesis
    by blast
qed

text \<open>
  Claim C3 says that \<open>read_courses\<close> never raises on a bad table file and returns the
  empty list when the file holds malformed JSON; the comment in \<open>read_courses\<close> says the
  same. The code catches \<open>json.JSONDecodeError\<close> only: a table file that holds the byte
  \<open>0xFF\<close> is not JSON, and reading it raises \<open>UnicodeDecodeError\<close>, which
  \<open>read_courses\<close> and \<open>get_courses\<close> let through whatever the parser is. (The file that
  is absent and the text on which \<open>json.load\<close> raises \<open>JSONDecodeError\<close> do give the
  empty list: \<open>read_courses_absent\<close>, \<open>read_courses_JSONDecodeError\<close>; every other
  exception of \<open>json.load\<close> is let through: \<open>read_courses_propagates\<close>.)
\<close>

theorem read_courses_undecodable_raises:
  "read_courses loads damaged = Inl UnicodeDecodeError \<and>
   get_courses loads damaged = Inl UnicodeDecodeError"
  by (simp add: get_courses_def read_courses_def json_load_def damaged_def COURSES_FILE_def)

text \<open>
  Claim C4: when the table has a record of the requested name, \<open>delete_course\<close> removes
  the first such record and no other, returns it, and writes back the records before and
  after it in their order; when no record has the name it fails with status 404
  (\<open>NotFound\<close>) and the file system is unchanged. By \<open>first_match_decomposition\<close> every
  table with a matching record has the form \<open>pre @ c # post\<close> assumed in the first part.
\<close>

theorem delete_course_first_match:
  "(read_courses loads s = Inr (pre @ c # post) \<and> (\<forall>x\<in>set pre. name x \<noteq> n) \<and> name c = n \<longrightarrow>
      delete_course loads n s = (Inr c, s(COURSES_FILE \<mapsto> Table (pre @ post))) \<and>
      read_courses loads (snd (delete_course loads n s)) = Inr (pre @ post)) \<and>
   (read_courses loads s = Inr t \<and> (\<forall>x\<in>set t. name x \<noteq> n) \<longrightarrow>
      delete_course loads n s = (Inl (HTTPException 404 ''Course not found''), s))"
proof (intro conjI impI)
  assume h: "read_courses loads s = Inr (pre @ c # post) \<and> (\<forall>x\<in>set pre. name x \<noteq> n) \<and>
    name c = n"
  then show del: "delete_course loads n s = (Inr c, s(COURSES_FILE \<mapsto> Table (pre @ post)))"
    by (simp add: delete_course_hit)
  show "read_courses loads (snd (delete_course loads n s)) = Inr (pre @ post)"
    unfolding del by (simp add: read_courses_written)
next
  assume "read_courses loads s = Inr t \<and> (\<forall>x\<in>set t. name x \<noteq> n)"
  then show "delete_course loads n s = (Inl (HTTPException 404 ''Course not found''), s)"
    by (simp add: delete_course_miss)
qed

theorem delete_course_first_match_witness:
  "read_courses no_parse disk = Inr ([geometry] @ algebra # [algebra_again]) \<and>
   name geometry \<noteq> ''Algebra'' \<and> name algebra = ''Algebra'' \<and>
   delete_course no_parse ''Algebra'' disk =
     (Inr algebra, disk(COURSES_FILE \<mapsto> Table [geometry, algebra_again])) \<and>
   read_courses no_parse (snd (delete_course no_parse ''Algebra'' disk)) =
     Inr [geometry, algebra_again] \<and>
   name geometry \<noteq> ''Physics'' \<and> name algebra \<noteq> ''Physics'' \<and>
   name algebra_again \<noteq> ''Physics'' \<and>
   delete_course no_parse ''Physics'' disk =
     (Inl (HTTPException 404 ''Course not found''), disk)"
  using delete_course_first_match
      [of no_parse disk "[geometry]" algebra "[algebra_again]" "''Algebra''"
        "[geometry, algebra, algebra_again]"]
    delete_course_first_match
      [of no_parse disk "[]" algebra "[]" "''Physics''" "[geometry, algebra, algebra_again]"]
    disk_split [of no_parse] read_courses_disk [of no_parse] no_physics
  by (simp add: read_courses_written)

text \<open>
  Claim C5: on a table with a record of the requested name, \<open>update_course\<close> returns the
  updated record \<open>u\<close>, which keeps the \<open>created_at\<close> of the stored record and has the
  clock's reading as \<open>updated_at\<close>, and writes the whole table back with \<open>u\<close> at the
  place of the first matching record: there \<open>created_at\<close> is the stored string and
  \<open>updated_at\<close> the string of the clock's reading.
\<close>

theorem update_course_timestamps:
  assumes "read_courses loads s = Inr (pre @ c # post)"
    and "\<forall>x\<in>set pre. name x \<noteq> n"
    and "name c = n"
  shows "\<exists>u. update_course loads now n req s =
             (Inr u, s(COURSES_FILE \<mapsto> Table (pre @ json_dump_course u # post))) \<and>
           created_at u = Str (created_at c) \<and> updated_at u = Datetime now \<and>
           created_at (json_dump_course u) = created_at c \<and>
           updated_at (json_dump_course u) = str_datetime now"
proof (intro exI conjI)
  show "update_course loads now n req s =
      (Inr (req\<lparr>created_at := Str (created_at c), updated_at := Datetime now\<rparr>),
       s(COURSES_FILE \<mapsto> Table (pre @
           json_dump_course (req\<lparr>created_at := Str (created_at c), updated_at := Datetime now\<rparr>)
           # post)))"
    by (rule update_course_hit [OF assms])
qed (simp_all add: json_dump_course_def)

theorem update_course_timestamps_witness:
  "read_courses no_parse disk = Inr ([geometry] @ algebra # [algebra_again]) \<and>
   name geometry \<noteq> ''Algebra'' \<and> name algebra = ''Algebra'' \<and>
   (\<exists>u. update_course no_parse clock2 ''Algebra'' request_body disk =
           (Inr u, disk(COURSES_FILE \<mapsto> Table ([geometry] @ json_dump_course u # [algebra_again]))) \<and>
         created_at u = Str ''2023-09-01 08:00:00'' \<and> updated_at u = Datetime clock2 \<and>
         created_at (json_dump_course u) = ''2023-09-01 08:00:00'' \<and>
         updated_at (json_dump_course u) = ''2024-01-02 03:04:05.000007'')"
proof -
  have h2: "\<forall>x\<in>set [geometry]. name x \<noteq> ''Algebra''"
    by simp
  have h3: "name algebra = ''Algebra''"
    by simp
  have ca: "created_at algebra = ''2023-09-01 08:00:00''"
    by (simp add: algebra_def)
  from update_course_timestamps [OF disk_split h2 h3, of no_parse clock2 request_body]
  show ?thesis
    unfolding str_clock2 ca using disk_split [of no_parse] by simp
qed

text \<open>
  Claim C6 says that a created record has equal \<open>created_at\<close> and \<open>updated_at\<close>.
  \<open>create_course\<close> fills the two fields from two calls of \<open>datetime.now()\<close>: when the
  clock advances between them, by one microsecond here, the record returned and the
  record stored have different timestamps.
\<close>

theorem create_course_timestamps_differ:
  "fst (create_course loads clock1 clock2 ''Algebra'' ''Linear equations'' ''Bac''
          ''algebra.pdf'' ''%PDF-1.4'' fresh) =
     Inr \<lparr>name = ''Algebra'', description = ''Linear equations'',
           pdf_path = ''pdf_files/algebra.pdf'',
           created_at = Datetime clock1, updated_at = Datetime clock2, level = ''Bac''\<rparr> \<and>
   Datetime clock1 \<noteq> Datetime clock2 \<and>
   read_courses loads (snd (create_course loads clock1 clock2 ''Algebra'' ''Linear equations''
          ''Bac'' ''algebra.pdf'' ''%PDF-1.4'' fresh)) =
     Inr [\<lparr>name = ''Algebra'', description = ''Linear equations'',
       pdf_path = ''pdf_files/algebra.pdf'',
       created_at = ''2024-01-02 03:04:05.000006'',
       updated_at = ''2024-01-02 03:04:05.000007'', level = ''Bac''\<rparr>]"
  unfolding create_algebra
  using clocks_differ by (simp add: read_courses_written)

text \<open>
  Claim C7 says that a \<open>Course\<close> written with \<open>write_courses\<close> is read back by
  \<open>read_courses\<close> with every field equal, timestamps included. The timestamps are not:
  \<open>json.dump\<close> writes a \<open>datetime\<close> through \<open>default=str\<close>, and \<open>read_courses\<close> returns
  that string, which is not the \<open>datetime\<close> the object held.
\<close>

theorem write_read_timestamp_counterexample:
  "write_courses [Obj request_body] fresh =
     Inr (fresh(COURSES_FILE \<mapsto> Table
       [\<lparr>name = ''Analysis'', description = ''Limits'', pdf_path = ''pdf_files/analysis.pdf'',
         created_at = ''2024-01-02 03:04:05.000006'',
         updated_at = ''2024-01-02 03:04:05.000006'', level = ''Bac''\<rparr>])) \<and>
   read_courses no_parse (fresh(COURSES_FILE \<mapsto> Table
       [\<lparr>name = ''Analysis'', description = ''Limits'', pdf_path = ''pdf_files/analysis.pdf'',
         created_at = ''2024-01-02 03:04:05.000006'',
         updated_at = ''2024-01-02 03:04:05.000006'', level = ''Bac''\<rparr>])) =
     Inr [\<lparr>name = ''Analysis'', description = ''Limits'', pdf_path = ''pdf_files/analysis.pdf'',
       created_at = ''2024-01-02 03:04:05.000006'',
       updated_at = ''2024-01-02 03:04:05.000006'', level = ''Bac''\<rparr>] \<and>
   created_at request_body = Datetime clock1 \<and>
   Str ''2024-01-02 03:04:05.000006'' \<noteq> Datetime clock1"
  unfolding write_courses_eq [where s = fresh, OF fresh_not_directory] read_courses_written
  by (simp add: json_dump_course_def request_body_def str_clock1)

text \<open>
  Claim C7, amended: writing a list of \<open>Course\<close> objects and reading it back yields, in
  the same order, records whose name, description, pdf_path and level are those of the
  objects, and whose \<open>created_at\<close> and \<open>updated_at\<close> are the strings \<open>str\<close> gives for the
  objects' timestamps (a string is kept as it is; by \<open>str_datetime_inj\<close> the string
  determines the timestamp). Writing records that were read from the table and reading
  them back yields them unchanged, in every field. The table file is written unless a
  directory stands at its path (\<open>write_courses_directory\<close>).
\<close>

theorem write_read_courses_roundtrip:
  assumes "s COURSES_FILE \<noteq> Some Directory"
  shows "write_courses (map Obj cs) s =
           Inr (s(COURSES_FILE \<mapsto> Table (map json_dump_course cs))) \<and>
         read_courses loads (s(COURSES_FILE \<mapsto> Table (map json_dump_course cs))) =
           Inr (map json_dump_course cs) \<and>
         write_courses (map Dict ds) s = Inr (s(COURSES_FILE \<mapsto> Table ds)) \<and>
         read_courses loads (s(COURSES_FILE \<mapsto> Table ds)) = Inr ds \<and>
         name (json_dump_course c) = name c \<and>
         description (json_dump_course c) = description c \<and>
         pdf_path (json_dump_course c) = pdf_path c \<and>
         level (json_dump_course c) = level c \<and>
         created_at (json_dump_course c) =
           (case created_at c of Str t \<Rightarrow> t | Datetime d \<Rightarrow> str_datetime d) \<and>
         updated_at (json_dump_course c) =
           (case updated_at c of Str t \<Rightarrow> t | Datetime d \<Rightarrow> str_datetime d)"
proof -
  have objs: "map (\<lambda>e. json_dump_course (course_dict e)) (map Obj cs) = map json_dump_course cs"
    by (induction cs) simp_all
  have "write_courses (map Obj cs) s =
      Inr (s(COURSES_FILE \<mapsto> Table (map json_dump_course cs)))"
    unfolding write_courses_eq [where s = s, OF assms] objs ..
  moreover have "write_courses (map Dict ds) s = Inr (s(COURSES_FILE \<mapsto> Table ds))"
    by (rule write_courses_dicts [where s = s, OF assms])
  ultimately show ?thesis
    by (simp add: read_courses_written json_dump_course_def split: pyval.split)
qed

theorem write_read_courses_roundtrip_witness:
  "fresh COURSES_FILE \<noteq> Some Directory \<and>
   write_courses (map Obj [request_body]) fresh =
     Inr (fresh(COURSES_FILE \<mapsto> Table (map json_dump_course [request_body]))) \<and>
   read_courses no_parse (fresh(COURSES_FILE \<mapsto> Table (map json_dump_course [request_body]))) =
     Inr (map json_dump_course [request_body]) \<and>
   write_courses (map Dict [algebra]) fresh = Inr (fresh(COURSES_FILE \<mapsto> Table [algebra])) \<and>
   read_courses no_parse (fresh(COURSES_FILE \<mapsto> Table [algebra])) = Inr [algebra] \<and>
   created_at (json_dump_course request_body) = ''2024-01-02 03:04:05.000006''"
  using write_read_courses_roundtrip
      [where s = fresh and cs = "[request_body]" and loads = no_parse and ds = "[algebra]"
        and c = request_body, OF fresh_not_directory]
    fresh_not_directory
  by (simp add: request_body_def str_clock1)

text \<open>
  Claim C8: when no record of the table has the requested name, \<open>get_course\<close>,
  \<open>update_course\<close>, \<open>delete_course\<close> and \<open>download_course_file\<close> each fail with status
  404 (\<open>NotFound\<close>).
\<close>

theorem lookup_miss_not_found:
  assumes "read_courses loads s = Inr t" and "\<forall>x\<in>set t. name x \<noteq> n"
  shows "get_course loads n s = Inl (HTTPException 404 ''Course not found'') \<and>
         update_course loads now n req s = (Inl (HTTPException 404 ''Course not found''), s) \<and>
         delete_course loads n s = (Inl (HTTPException 404 ''Course not found''), s) \<and>
         download_course_file loads n s =
           Inl (HTTPException 404 (''Cours non trouv'' @ [CHR 0xE9]))"
  using get_course_miss [OF assms] update_course_miss [OF assms] delete_course_miss [OF assms]
    download_miss [OF assms]
  by blast

theorem lookup_miss_not_found_witness:
  "name geometry \<noteq> ''Physics'' \<and> name algebra \<noteq> ''Physics'' \<and>
   name algebra_again \<noteq> ''Physics'' \<and>
   read_courses no_parse disk = Inr [geometry, algebra, algebra_again] \<and>
   get_course no_parse ''Physics'' disk = Inl (HTTPException 404 ''Course not found'') \<and>
   update_course no_parse clock2 ''Physics'' request_body disk =
     (Inl (HTTPException 404 ''Course not found''), disk) \<and>
   delete_course no_parse ''Physics'' disk =
     (Inl (HTTPException 404 ''Course not found''), disk) \<and>
   download_course_file no_parse ''Physics'' disk =
     Inl (HTTPException 404 (''Cours non trouv'' @ [CHR 0xE9]))"
  using lookup_miss_not_found [OF read_courses_disk no_physics, of no_parse clock2 request_body]
    read_courses_disk [of no_parse]
  by simp

text \<open>
  Claim C9 says that a successful download returns the file under its original
  filename. The record keeps no filename: the response is named after the last component
  of \<open>pdf_path\<close>. A file uploaded as \<open>/tmp/algebra.pdf\<close> is served as \<open>algebra.pdf\<close>.
\<close>

theorem download_filename_counterexample:
  "download_course_file no_parse ''Algebra''
     (snd (create_course no_parse clock1 clock2 ''Algebra'' ''Linear equations'' ''Bac''
             ''/tmp/algebra.pdf'' ''%PDF-1.4'' fresh)) =
     Inr (FileResponse ''/tmp/algebra.pdf'' ''application/pdf'' ''algebra.pdf'') \<and>
   ''algebra.pdf'' \<noteq> ''/tmp/algebra.pdf''"
proof -
  have pdf: "endswith ''/tmp/algebra.pdf'' ''.pdf''"
    by (simp add: endswith_def)
  have free: "fresh (os_path_join UPLOAD_DIR ''/tmp/algebra.pdf'') \<noteq> Some Directory"
    unfolding join_tmp_algebra by (rule fresh_tmp_free)
  have none: "\<forall>x\<in>set ([]::json_course list). name x \<noteq> ''Algebra''"
    by simp
  have pn: "path_name ''/tmp/algebra.pdf'' = ''algebra.pdf''"
    by (simp add: path_name_def path_parts_def)
  from create_then_download
      [where s = fresh and loads = no_parse and ?now1.0 = clock1 and ?now2.0 = clock2
        and d = "''Linear equations''" and l = "''Bac''" and content = "''%PDF-1.4''",
        OF read_courses_fresh none pdf free]
  show ?thesis
    unfolding join_tmp_algebra pn by simp
qed

text \<open>
  Claim C9, amended: \<open>download_course_file\<close> fails with status 404 when no record has
  the requested name; it fails with status 404 and another message when nothing exists
  at the \<open>pdf_path\<close> of the first record of that name; when a regular file stands there
  it answers with a response that delivers that file under the last component of
  \<open>pdf_path\<close> as file name. That name is the name the file was uploaded under when the
  uploaded name has no separator: a download that follows the creation of a record of a
  new name delivers the uploaded content under the uploaded name. (What the download
  does when a directory stands at \<open>pdf_path\<close> is not part of the statement, see
  \<open>download_of_directory\<close>.)
\<close>

theorem download_course_file_cases:
  "(read_courses loads s = Inr t \<and> (\<forall>x\<in>set t. name x \<noteq> n) \<longrightarrow>
      download_course_file loads n s =
        Inl (HTTPException 404 (''Cours non trouv'' @ [CHR 0xE9]))) \<and>
   (read_courses loads s = Inr (pre @ c # post) \<and> (\<forall>x\<in>set pre. name x \<noteq> n) \<and> name c = n \<longrightarrow>
      (s (pdf_path c) = None \<longrightarrow>
         download_course_file loads n s =
           Inl (HTTPException 404 (''Fichier PDF non trouv'' @ [CHR 0xE9]))) \<and>
      (s (pdf_path c) = Some f \<and> f \<noteq> Directory \<longrightarrow>
         download_course_file loads n s =
           Inr (FileResponse (pdf_path c) ''application/pdf'' (path_name (pdf_path c))) \<and>
         response_content s
           (FileResponse (pdf_path c) ''application/pdf'' (path_name (pdf_path c))) = Some f)) \<and>
   HTTPException 404 (''Cours non trouv'' @ [CHR 0xE9]) \<noteq>
     HTTPException 404 (''Fichier PDF non trouv'' @ [CHR 0xE9]) \<and>
   (read_courses loads s = Inr t \<and> (\<forall>x\<in>set t. name x \<noteq> n) \<and>
    endswith fname ''.pdf'' \<and> CHR ''/'' \<notin> set fname \<and>
    s (os_path_join UPLOAD_DIR fname) \<noteq> Some Directory \<longrightarrow>
      download_course_file loads n
        (snd (create_course loads now1 now2 n d l fname content s)) =
        Inr (FileResponse (os_path_join UPLOAD_DIR fname) ''application/pdf'' fname) \<and>
      response_content (snd (create_course loads now1 now2 n d l fname content s))
        (FileResponse (os_path_join UPLOAD_DIR fname) ''application/pdf'' fname) =
        Some (Raw content))"
proof (intro conjI impI)
  assume "read_courses loads s = Inr t \<and> (\<forall>x\<in>set t. name x \<noteq> n)"
  then show "download_course_file loads n s =
      Inl (HTTPException 404 (''Cours non trouv'' @ [CHR 0xE9]))"
    by (simp add: download_miss)
next
  assume h: "read_courses loads s = Inr (pre @ c # post) \<and> (\<forall>x\<in>set pre. name x \<noteq> n) \<and>
      name c = n"
    and "s (pdf_path c) = None"
  then show "download_course_file loads n s =
      Inl (HTTPException 404 (''Fichier PDF non trouv'' @ [CHR 0xE9]))"
    by (simp add: download_hit [of loads s pre c post n])
next
  assume h: "read_courses loads s = Inr (pre @ c # post) \<and> (\<forall>x\<in>set pre. name x \<noteq> n) \<and>
      name c = n"
    and "s (pdf_path c) = Some f \<and> f \<noteq> Directory"
  then show "download_course_file loads n s =
      Inr (FileResponse (pdf_path c) ''application/pdf'' (path_name (pdf_path c)))"
    by (simp add: download_hit [of loads s pre c post n])
next
  assume "s (pdf_path c) = Some f \<and> f \<noteq> Directory"
  then show "response_content s
      (FileResponse (pdf_path c) ''application/pdf'' (path_name (pdf_path c))) = Some f"
    by (simp add: response_content_file)
next
  show "HTTPException 404 (''Cours non trouv'' @ [CHR 0xE9]) \<noteq>
     HTTPException 404 (''Fichier PDF non trouv'' @ [CHR 0xE9])"
    by simp
next
  assume h: "read_courses loads s = Inr t \<and> (\<forall>x\<in>set t. name x \<noteq> n) \<and>
    endswith fname ''.pdf'' \<and> CHR ''/'' \<notin> set fname \<and>
    s (os_path_join UPLOAD_DIR fname) \<noteq> Some Directory"
  then have pn: "path_name (os_path_join UPLOAD_DIR fname) = fname"
    by (simp add: path_name_upload)
  from h have r: "read_courses loads s = Inr t" and m: "\<forall>x\<in>set t. name x \<noteq> n"
    and e: "endswith fname ''.pdf''"
    and nd: "s (os_path_join UPLOAD_DIR fname) \<noteq> Some Directory"
    by simp_all
  have cd: "download_course_file loads n
           (snd (create_course loads now1 now2 n d l fname content s)) =
           Inr (FileResponse (os_path_join UPLOAD_DIR fname) ''application/pdf''
                  (path_name (os_path_join UPLOAD_DIR fname))) \<and>
         snd (create_course loads now1 now2 n d l fname content s)
           (os_path_join UPLOAD_DIR fname) = Some (Raw content)"
    by (rule create_then_download [where s = s, OF r m e nd])
  from cd show "download_course_file loads n
        (snd (create_course loads now1 now2 n d l fname content s)) =
        Inr (FileResponse (os_path_join UPLOAD_DIR fname) ''application/pdf'' fname)"
    unfolding pn by simp
  from cd show "response_content (snd (create_course loads now1 now2 n d l fname content s))
        (FileResponse (os_path_join UPLOAD_DIR fname) ''application/pdf'' fname) =
        Some (Raw content)"
    by (simp add: response_content_file)
qed

theorem download_course_file_cases_witness:
  "read_courses no_parse disk = Inr [geometry, algebra, algebra_again] \<and>
   name geometry \<noteq> ''Physics'' \<and> name algebra \<noteq> ''Physics'' \<and>
   name algebra_again \<noteq> ''Physics'' \<and>
   download_course_file no_parse ''Physics'' disk =
     Inl (HTTPException 404 (''Cours non trouv'' @ [CHR 0xE9])) \<and>
   name geometry = ''Geometry'' \<and> disk (pdf_path geometry) = None \<and>
   download_course_file no_parse ''Geometry'' disk =
     Inl (HTTPException 404 (''Fichier PDF non trouv'' @ [CHR 0xE9])) \<and>
   name algebra = ''Algebra'' \<and> disk (pdf_path algebra) = Some (Raw ''%PDF-1.4'') \<and>
   Raw ''%PDF-1.4'' \<noteq> Directory \<and>
   download_course_file no_parse ''Algebra'' disk =
     Inr (FileResponse ''pdf_files/algebra.pdf'' ''application/pdf'' ''algebra.pdf'') \<and>
   response_content disk
     (FileResponse ''pdf_files/algebra.pdf'' ''application/pdf'' ''algebra.pdf'') =
     Some (Raw ''%PDF-1.4'') \<and>
   read_courses no_parse fresh = Inr [] \<and>
   endswith ''algebra.pdf'' ''.pdf'' \<and> CHR ''/'' \<notin> set ''algebra.pdf'' \<and>
   fresh (os_path_join UPLOAD_DIR ''algebra.pdf'') \<noteq> Some Directory \<and>
   download_course_file no_parse ''Algebra''
     (snd (create_course no_parse clock1 clock2 ''Algebra'' ''Linear equations'' ''Bac''
             ''algebra.pdf'' ''%PDF-1.4'' fresh)) =
     Inr (FileResponse ''pdf_files/algebra.pdf'' ''application/pdf'' ''algebra.pdf'') \<and>
   response_content
     (snd (create_course no_parse clock1 clock2 ''Algebra'' ''Linear equations'' ''Bac''
             ''algebra.pdf'' ''%PDF-1.4'' fresh))
     (FileResponse ''pdf_files/algebra.pdf'' ''application/pdf'' ''algebra.pdf'') =
     Some (Raw ''%PDF-1.4'')"
proof -
  have g: "disk (pdf_path geometry) = None"
    by (simp add: disk_def geometry_def COURSES_FILE_def UPLOAD_DIR_def)
  have a: "disk (pdf_path algebra) = Some (Raw ''%PDF-1.4'')"
    by (simp add: disk_def algebra_def)
  have pa: "pdf_path algebra = ''pdf_files/algebra.pdf''"
    by (simp add: algebra_def)
  have e: "endswith ''algebra.pdf'' ''.pdf''"
    by (simp add: endswith_def)
  have free: "fresh (os_path_join UPLOAD_DIR ''algebra.pdf'') \<noteq> Some Directory"
    unfolding join_algebra by (rule fresh_upload_free)
  have miss: "download_course_file no_parse ''Physics'' disk =
      Inl (HTTPException 404 (''Cours non trouv'' @ [CHR 0xE9]))"
    using download_course_file_cases
      [where loads = no_parse and s = disk and t = "[geometry, algebra, algebra_again]"
        and n = "''Physics''"]
      read_courses_disk [of no_parse] no_physics
    by blast
  have gone: "download_course_file no_parse ''Geometry'' disk =
      Inl (HTTPException 404 (''Fichier PDF non trouv'' @ [CHR 0xE9]))"
    using download_course_file_cases
      [where loads = no_parse and s = disk and n = "''Geometry''" and pre = "[]"
        and c = geometry and post = "[algebra, algebra_again]"]
      disk_split_first [of no_parse] g
    by simp
  have hit: "download_course_file no_parse ''Algebra'' disk =
      Inr (FileResponse ''pdf_files/algebra.pdf'' ''application/pdf'' ''algebra.pdf'') \<and>
    response_content disk
      (FileResponse ''pdf_files/algebra.pdf'' ''application/pdf'' ''algebra.pdf'') =
      Some (Raw ''%PDF-1.4'')"
    using download_course_file_cases
      [where loads = no_parse and s = disk and n = "''Algebra''" and pre = "[geometry]"
        and c = algebra and post = "[algebra_again]" and f = "Raw ''%PDF-1.4''"]
      disk_split [of no_parse] a
    by (simp add: pa path_name_algebra)
  have made: "download_course_file no_parse ''Algebra''
      (snd (create_course no_parse clock1 clock2 ''Algebra'' ''Linear equations'' ''Bac''
             ''algebra.pdf'' ''%PDF-1.4'' fresh)) =
      Inr (FileResponse ''pdf_files/algebra.pdf'' ''application/pdf'' ''algebra.pdf'') \<and>
    response_content
      (snd (create_course no_parse clock1 clock2 ''Algebra'' ''Linear equations'' ''Bac''
             ''algebra.pdf'' ''%PDF-1.4'' fresh))
      (FileResponse ''pdf_files/algebra.pdf'' ''application/pdf'' ''algebra.pdf'') =
      Some (Raw ''%PDF-1.4'')"
    using download_course_file_cases
      [where loads = no_parse and s = fresh and t = "[]" and n = "''Algebra''"
        and fname = "''algebra.pdf''" and ?now1.0 = clock1 and ?now2.0 = clock2
        and d = "''Linear equations''" and l = "''Bac''" and content = "''%PDF-1.4''"]
      read_courses_fresh [of no_parse] e free
    by (simp add: join_algebra)
  from miss gone hit made g a e free show ?thesis
    by (simp add: read_courses_disk read_courses_fresh)
qed

text \<open>
  Claim C10 says that the upload is written inside the upload directory. For a filename
  that is an absolute path, \<open>os.path.join\<close> discards \<open>UPLOAD_DIR\<close>: the upload is written
  at that absolute path, outside the directory, and \<open>pdf_path\<close> records it. (For every
  filename ending with \<open>.pdf\<close>, \<open>create_course_ok\<close> gives the path written and recorded.)
\<close>

theorem create_course_absolute_filename:
  "fst (create_course loads clock1 clock2 ''Algebra'' ''Linear equations'' ''Bac''
          ''/tmp/algebra.pdf'' ''%PDF-1.4'' fresh) =
     Inr \<lparr>name = ''Algebra'', description = ''Linear equations'',
           pdf_path = ''/tmp/algebra.pdf'',
           created_at = Datetime clock1, updated_at = Datetime clock2, level = ''Bac''\<rparr> \<and>
   snd (create_course loads clock1 clock2 ''Algebra'' ''Linear equations'' ''Bac''
          ''/tmp/algebra.pdf'' ''%PDF-1.4'' fresh) ''/tmp/algebra.pdf'' =
     Some (Raw ''%PDF-1.4'') \<and>
   \<not> startswith ''/tmp/algebra.pdf'' (UPLOAD_DIR @ ''/'')"
  unfolding create_tmp_algebra
  by (simp add: COURSES_FILE_def startswith_def UPLOAD_DIR_def)

end
